theory Spec2Isabelle
  imports Main
begin

section \<open>The store: the Characters table and everything else\<close>

text \<open>
  The application keeps its data in a MySQL database. The gold transfer reads and writes
  one table only, \<^verbatim>\<open>Characters\<close>, whose primary key is \<^verbatim>\<open>character_id\<close> and
  whose other columns are the ones \<^verbatim>\<open>insert_row_generic\<close> fills in:
  \<^verbatim>\<open>INSERT INTO Characters (character_id, race_id, class_id, gold)\<close>.
  A row is a record of these columns, the table a map from the key to the row. The column
  \<^verbatim>\<open>gold\<close> is declared \<^verbatim>\<open>"gold": "INTEGER"\<close> in the column configuration, so it is
  an unbounded integer here. All other tables (Creatures, Races, Classes, Inventory, ...)
  are one opaque component of the database.
\<close>

record character =
  race_id :: int
  class_id :: int
  gold :: int

type_synonym characters_table = "int \<rightharpoonup> character"

record 'o database =
  characters :: characters_table
  other_tables :: 'o

text \<open>Both entry points bind the table name to the same table.\<close>

definition TARGET_TABLE_NAME :: string where
  "TARGET_TABLE_NAME = ''Characters''"

definition TABLE_NAME :: string where
  "TABLE_NAME = ''Characters''"

section \<open>The connection, its transaction, and store errors\<close>

text \<open>
  Python exceptions the transfer can meet: \<^verbatim>\<open>mysql.connector.Error\<close> raised by a call
  on the connection or the cursor, and the \<^verbatim>\<open>ValueError\<close> the function raises itself.
  Both carry their message, which \<^verbatim>\<open>f"{e}"\<close> prints.
\<close>

datatype exn = Error string | ValueError string

fun str :: "exn \<Rightarrow> string" where
  "str (Error msg) = msg"
| "str (ValueError msg) = msg"

text \<open>
  The calls \<^verbatim>\<open>transfer_gold\<close> makes on the connection and the cursor, one name per
  call site, in source order. \<^verbatim>\<open>cursor.execute(SELECT ...)\<close> and the
  \<^verbatim>\<open>cursor.fetchone()\<close> that follows it are one call here.
\<close>

datatype db_call =
    Cursor | StartTransaction | SelectFrom | SelectTo | UpdateFrom | UpdateTo
  | Commit | Rollback | CursorClose | ConnClose

text \<open>
  \<^verbatim>\<open>get_connection\<close> is decorated with \<^verbatim>\<open>@st.cache_resource\<close> ("to cache the
  connection for performance"): its body runs once, and the object it returned, a
  connection or \<^verbatim>\<open>None\<close>, is handed to every later caller as earlier callers left
  it. A connection object is open until \<^verbatim>\<open>conn.close()\<close> is called on it.
\<close>

datatype handle = Open | Closed

datatype cache = Empty | Holds "handle option"

text \<open>
  What the database server and the driver do is not in the repository, so it is a
  parameter of the model: whether connecting succeeds, which calls raise
  \<^verbatim>\<open>Error\<close> (with which message), and what \<^verbatim>\<open>conn.is_connected()\<close> answers on
  an open connection in the \<^verbatim>\<open>finally\<close> block. With it comes what the cache of
  \<^verbatim>\<open>get_connection\<close> holds when the call starts.
\<close>

record environment =
  connects :: bool
  faults :: "(db_call \<times> string) list"
  is_connected :: bool
  cached :: cache

text \<open>The call obtains an open connection, and no call on it raises.\<close>

definition no_faults :: "environment \<Rightarrow> bool" where
  "no_faults env =
     (faults env = [] \<and> (case cached env of Empty \<Rightarrow> connects env | Holds c \<Rightarrow> c = Some Open))"

text \<open>The statements that reached the server, for the order of locks and writes.\<close>

datatype statement =
    START_TRANSACTION
  | SELECT_GOLD_FOR_UPDATE string int
  | UPDATE_GOLD_MINUS string int int
  | UPDATE_GOLD_PLUS string int int
  | COMMIT
  | ROLLBACK

text \<open>
  A connection sees the committed database \<open>store\<close>, holds the uncommitted view \<open>txn\<close>
  of its open transaction, and \<open>log\<close> records the statements it executed in this call,
  oldest first; \<open>handle\<close> says whether the connection object is still open.
\<close>

record 'o connection =
  store :: "'o database"
  txn :: "'o database"
  log :: "statement list"
  handle :: handle

type_synonym ('a, 'o) call = "'o connection \<Rightarrow> (exn + 'a) \<times> 'o connection"

definition and_then :: "('a, 'o) call \<Rightarrow> ('a \<Rightarrow> ('b, 'o) call) \<Rightarrow> ('b, 'o) call" where
  "and_then m f conn =
     (case m conn of (Inl e, conn') \<Rightarrow> (Inl e, conn') | (Inr a, conn') \<Rightarrow> f a conn')"

definition raise :: "exn \<Rightarrow> ('a, 'o) call" where
  "raise e conn = (Inl e, conn)"

definition return :: "'a \<Rightarrow> ('a, 'o) call" where
  "return a conn = (Inr a, conn)"

text \<open>A call that the environment makes fail raises and leaves the connection as it was.\<close>

definition db :: "environment \<Rightarrow> db_call \<Rightarrow> ('a, 'o) call \<Rightarrow> ('a, 'o) call" where
  "db env c run conn =
     (case map_of (faults env) c of Some msg \<Rightarrow> (Inl (Error msg), conn) | None \<Rightarrow> run conn)"

text \<open>A newly opened connection on the database \<open>d\<close> that has executed nothing yet.\<close>

definition fresh :: "'o database \<Rightarrow> 'o connection" where
  "fresh d = \<lparr>store = d, txn = d, log = [], handle = Open\<rparr>"

text \<open>
  \<^verbatim>\<open>get_connection\<close>: with an empty cache the body runs and returns the new
  connection, or \<^verbatim>\<open>None\<close> after reporting that connecting failed; otherwise the
  cached object is returned, open or closed as it is.
\<close>

definition get_connection :: "environment \<Rightarrow> 'o database \<Rightarrow> 'o connection option" where
  "get_connection env d =
     (case cached env of
        Empty \<Rightarrow> if connects env then Some (fresh d) else None
      | Holds None \<Rightarrow> None
      | Holds (Some h) \<Rightarrow> Some ((fresh d)\<lparr>handle := h\<rparr>))"

text \<open>
  What the cache holds after a call that started in \<open>env\<close> and ended with the connection
  of \<open>r\<close>: the object \<^verbatim>\<open>get_connection\<close> returned, in the state the call left it.
\<close>

definition cache_after :: "environment \<Rightarrow> (exn + 'a) \<times> 'o connection \<Rightarrow> cache" where
  "cache_after env r =
     (case cached env of
        Empty \<Rightarrow> Holds (if connects env then Some (handle (snd r)) else None)
      | Holds None \<Rightarrow> Holds None
      | Holds (Some h) \<Rightarrow> Holds (Some (handle (snd r))))"

text \<open>The environment of the next call in the same process, the server behaving as before.\<close>

definition later :: "environment \<Rightarrow> (exn + 'a) \<times> 'o connection \<Rightarrow> environment" where
  "later env r = env\<lparr>cached := cache_after env r\<rparr>"

text \<open>
  \<^verbatim>\<open>conn.cursor()\<close> is the first call made on the connection; on a closed connection
  it raises.
\<close>

definition cursor :: "environment \<Rightarrow> (unit, 'o) call" where
  "cursor env conn =
     (if handle conn = Closed then (Inl (Error ''MySQL Connection not available.''), conn)
      else db env Cursor (return ()) conn)"

definition start_transaction :: "environment \<Rightarrow> (unit, 'o) call" where
  "start_transaction env =
     db env StartTransaction
       (\<lambda>conn. (Inr (), conn\<lparr>txn := store conn, log := log conn @ [START_TRANSACTION]\<rparr>))"

text \<open>
  \<^verbatim>\<open>SELECT gold FROM t WHERE character_id = %s FOR UPDATE\<close> followed by
  \<^verbatim>\<open>fetchone()\<close>: the gold of the row, or \<^verbatim>\<open>None\<close> when there is no such row.
\<close>

definition select_gold_for_update ::
  "environment \<Rightarrow> db_call \<Rightarrow> string \<Rightarrow> int \<Rightarrow> (int option, 'o) call" where
  "select_gold_for_update env c t cid =
     db env c
       (\<lambda>conn. (Inr (map_option gold (characters (txn conn) cid)),
                conn\<lparr>log := log conn @ [SELECT_GOLD_FOR_UPDATE t cid]\<rparr>))"

text \<open>\<^verbatim>\<open>UPDATE t SET gold = gold + delta WHERE character_id = %s\<close> on a table.\<close>

definition add_gold :: "int \<Rightarrow> int \<Rightarrow> characters_table \<Rightarrow> characters_table" where
  "add_gold cid delta tab =
     (case tab cid of None \<Rightarrow> tab | Some r \<Rightarrow> tab(cid \<mapsto> r\<lparr>gold := gold r + delta\<rparr>))"

definition update_gold_minus ::
  "environment \<Rightarrow> db_call \<Rightarrow> string \<Rightarrow> int \<Rightarrow> int \<Rightarrow> (unit, 'o) call" where
  "update_gold_minus env c t amount cid =
     db env c
       (\<lambda>conn. (Inr (),
                conn\<lparr>txn := (txn conn)\<lparr>characters := add_gold cid (- amount) (characters (txn conn))\<rparr>,
                     log := log conn @ [UPDATE_GOLD_MINUS t amount cid]\<rparr>))"

definition update_gold_plus ::
  "environment \<Rightarrow> db_call \<Rightarrow> string \<Rightarrow> int \<Rightarrow> int \<Rightarrow> (unit, 'o) call" where
  "update_gold_plus env c t amount cid =
     db env c
       (\<lambda>conn. (Inr (),
                conn\<lparr>txn := (txn conn)\<lparr>characters := add_gold cid amount (characters (txn conn))\<rparr>,
                     log := log conn @ [UPDATE_GOLD_PLUS t amount cid]\<rparr>))"

definition commit :: "environment \<Rightarrow> (unit, 'o) call" where
  "commit env =
     db env Commit (\<lambda>conn. (Inr (), conn\<lparr>store := txn conn, log := log conn @ [COMMIT]\<rparr>))"

definition rollback :: "environment \<Rightarrow> (unit, 'o) call" where
  "rollback env =
     db env Rollback (\<lambda>conn. (Inr (), conn\<lparr>txn := store conn, log := log conn @ [ROLLBACK]\<rparr>))"

definition cursor_close :: "environment \<Rightarrow> (unit, 'o) call" where
  "cursor_close env = db env CursorClose (return ())"

text \<open>
  Closing the connection discards whatever the transaction had not committed, and the
  connection object stays closed.
\<close>

definition conn_close :: "environment \<Rightarrow> (unit, 'o) call" where
  "conn_close env =
     db env ConnClose (\<lambda>conn. (Inr (), conn\<lparr>txn := store conn, handle := Closed\<rparr>))"

section \<open>transfer\_gold\<close>

text \<open>
  The \<^verbatim>\<open>try\<close> block of \<^verbatim>\<open>transfer_gold\<close> in \<^verbatim>\<open>Steamliteapp.py\<close>, statement by
  statement. It ends by returning \<^verbatim>\<open>(True, "Gold transfer successful!")\<close> or by an
  exception.
\<close>

definition transfer_gold_try ::
  "environment \<Rightarrow> int \<Rightarrow> int \<Rightarrow> int \<Rightarrow> (bool \<times> string, 'o) call" where
  "transfer_gold_try env from_id to_id amount =
     and_then (start_transaction env) (\<lambda>_.
     and_then (select_gold_for_update env SelectFrom TARGET_TABLE_NAME from_id) (\<lambda>from_gold_data.
     and_then (select_gold_for_update env SelectTo TARGET_TABLE_NAME to_id) (\<lambda>to_gold_data.
       case (from_gold_data, to_gold_data) of
         (Some from_gold, Some to_gold) \<Rightarrow>
           if from_gold < amount then raise (ValueError ''Insufficient gold to transfer.'')
           else
             and_then (update_gold_minus env UpdateFrom TARGET_TABLE_NAME amount from_id) (\<lambda>_.
             and_then (update_gold_plus env UpdateTo TARGET_TABLE_NAME amount to_id) (\<lambda>_.
             and_then (commit env) (\<lambda>_.
             return (True, ''Gold transfer successful!''))))
       | _ \<Rightarrow> raise (ValueError ''One of the selected characters does not exist.''))))"

text \<open>
  \<^verbatim>\<open>except Exception as e: conn.rollback(); return False, f"Gold transfer failed: {e}"\<close>.
  An exception raised by the rollback itself leaves the handler.
\<close>

definition except_rollback ::
  "environment \<Rightarrow> (exn + bool \<times> string) \<times> 'o connection \<Rightarrow> (exn + bool \<times> string) \<times> 'o connection" where
  "except_rollback env r =
     (case r of
        (Inr v, conn) \<Rightarrow> (Inr v, conn)
      | (Inl e, conn) \<Rightarrow>
          and_then (rollback env) (\<lambda>_. return (False, ''Gold transfer failed: '' @ str e)) conn)"

text \<open>
  \<^verbatim>\<open>finally: if conn and conn.is_connected(): cursor.close(); conn.close()\<close>.
  The block runs on every way out; an exception it raises replaces the pending result.
\<close>

definition finally_close ::
  "environment \<Rightarrow> (exn + bool \<times> string) \<times> 'o connection \<Rightarrow> (exn + bool \<times> string) \<times> 'o connection" where
  "finally_close env r =
     (case r of (res, conn) \<Rightarrow>
        if handle conn = Open \<and> is_connected env then
          (case and_then (cursor_close env) (\<lambda>_. conn_close env) conn of
             (Inl e, conn') \<Rightarrow> (Inl e, conn')
           | (Inr _, conn') \<Rightarrow> (res, conn'))
        else (res, conn))"

text \<open>
  \<^verbatim>\<open>transfer_gold(from_id, to_id, amount)\<close> of \<^verbatim>\<open>Steamliteapp.py\<close> on the database
  \<open>d\<close>. The result is \<open>Inr (ok, message)\<close> when the function returns and \<open>Inl e\<close> when
  the exception \<open>e\<close> reaches the caller; the connection it comes with holds the database
  after the call (\<open>store\<close>) and the statements executed (\<open>log\<close>).
  \<^verbatim>\<open>conn.cursor()\<close> is called before the \<^verbatim>\<open>try\<close>.
\<close>

definition transfer_gold ::
  "environment \<Rightarrow> int \<Rightarrow> int \<Rightarrow> int \<Rightarrow> 'o database \<Rightarrow> (exn + bool \<times> string) \<times> 'o connection" where
  "transfer_gold env from_id to_id amount d =
     (case get_connection env d of
        None \<Rightarrow> (Inr (False, ''Database connection failed.''), fresh d)
      | Some conn \<Rightarrow>
          (case cursor env conn of
             (Inl e, conn') \<Rightarrow> (Inl e, conn')
           | (Inr _, conn') \<Rightarrow>
               finally_close env
                 (except_rollback env (transfer_gold_try env from_id to_id amount conn'))))"

section \<open>transfer\_gold in Steamlite\_allapp.py\<close>

text \<open>
  The second entry point has its own copy of the function. It names the table through
  \<^verbatim>\<open>TABLE_NAME\<close> and words the insufficient-gold message with an exclamation mark;
  the \<^verbatim>\<open>except\<close> and \<^verbatim>\<open>finally\<close> blocks are the same text.
\<close>

definition transfer_gold_allapp_try ::
  "environment \<Rightarrow> int \<Rightarrow> int \<Rightarrow> int \<Rightarrow> (bool \<times> string, 'o) call" where
  "transfer_gold_allapp_try env from_id to_id amount =
     and_then (start_transaction env) (\<lambda>_.
     and_then (select_gold_for_update env SelectFrom TABLE_NAME from_id) (\<lambda>from_gold_data.
     and_then (select_gold_for_update env SelectTo TABLE_NAME to_id) (\<lambda>to_gold_data.
       case (from_gold_data, to_gold_data) of
         (Some from_gold, Some to_gold) \<Rightarrow>
           if from_gold < amount then raise (ValueError ''Insufficient gold to transfer!'')
           else
             and_then (update_gold_minus env UpdateFrom TABLE_NAME amount from_id) (\<lambda>_.
             and_then (update_gold_plus env UpdateTo TABLE_NAME amount to_id) (\<lambda>_.
             and_then (commit env) (\<lambda>_.
             return (True, ''Gold transfer successful!''))))
       | _ \<Rightarrow> raise (ValueError ''One of the selected characters does not exist.''))))"

definition transfer_gold_allapp ::
  "environment \<Rightarrow> int \<Rightarrow> int \<Rightarrow> int \<Rightarrow> 'o database \<Rightarrow> (exn + bool \<times> string) \<times> 'o connection" where
  "transfer_gold_allapp env from_id to_id amount d =
     (case get_connection env d of
        None \<Rightarrow> (Inr (False, ''Database connection failed.''), fresh d)
      | Some conn \<Rightarrow>
          (case cursor env conn of
             (Inl e, conn') \<Rightarrow> (Inl e, conn')
           | (Inr _, conn') \<Rightarrow>
               finally_close env
                 (except_rollback env (transfer_gold_allapp_try env from_id to_id amount conn'))))"

text \<open>The two entry points, to state a property of both copies at once.\<close>

datatype app = Steamliteapp | Steamlite_allapp

fun transfer_gold_of ::
  "app \<Rightarrow> environment \<Rightarrow> int \<Rightarrow> int \<Rightarrow> int \<Rightarrow> 'o database \<Rightarrow> (exn + bool \<times> string) \<times> 'o connection" where
  "transfer_gold_of Steamliteapp = transfer_gold"
| "transfer_gold_of Steamlite_allapp = transfer_gold_allapp"

fun insufficient_gold :: "app \<Rightarrow> string" where
  "insufficient_gold Steamliteapp = ''Insufficient gold to transfer.''"
| "insufficient_gold Steamlite_allapp = ''Insufficient gold to transfer!''"

section \<open>The caller: the Transfer Gold button\<close>

text \<open>
  What the script does when the button is pressed (the same text in both entry points):
  \<^verbatim>\<open>
  if from_id == to_id:
      st.error("Cannot transfer gold to the same character!")
  elif from_id and to_id and amount:
      success, msg = transfer_gold(from_id, to_id, amount)
      if success: st.success(msg)
      else: st.error(msg)
  else:
      st.warning("Please select both characters and a valid amount.")
  \<close>
  An integer is true in Python when it is not zero.
\<close>

datatype shown = st_error string | st_success string | st_warning string

definition transfer_gold_button ::
  "app \<Rightarrow> environment \<Rightarrow> int \<Rightarrow> int \<Rightarrow> int \<Rightarrow> 'o database \<Rightarrow> (exn + shown) \<times> 'o connection" where
  "transfer_gold_button a env from_id to_id amount d =
     (if from_id = to_id then
        (Inr (st_error ''Cannot transfer gold to the same character!''), fresh d)
      else if from_id \<noteq> 0 \<and> to_id \<noteq> 0 \<and> amount \<noteq> 0 then
        (case transfer_gold_of a env from_id to_id amount d of
           (Inl e, conn) \<Rightarrow> (Inl e, conn)
         | (Inr (success, msg), conn) \<Rightarrow>
             (Inr (if success then st_success msg else st_error msg), conn))
      else
        (Inr (st_warning ''Please select both characters and a valid amount.''), fresh d))"

section \<open>Vocabulary of the properties\<close>

text \<open>The balance of an entity, when the entity exists.\<close>

definition gold_of :: "'o database \<Rightarrow> int \<Rightarrow> int option" where
  "gold_of d cid = map_option gold (characters d cid)"

text \<open>The success flag of a call that returned.\<close>

definition ok :: "(exn + bool \<times> string) \<times> 'o connection \<Rightarrow> bool option" where
  "ok r = (case fst r of Inl e \<Rightarrow> None | Inr (success, msg) \<Rightarrow> Some success)"

text \<open>The database after the call, and the statements the call executed.\<close>

definition after :: "(exn + 'a) \<times> 'o connection \<Rightarrow> 'o database" where
  "after r = store (snd r)"

definition executed :: "(exn + 'a) \<times> 'o connection \<Rightarrow> statement list" where
  "executed r = log (snd r)"

text \<open>The call gets as far as its try block: it has an open connection and a cursor.\<close>

definition reaches_try :: "environment \<Rightarrow> bool" where
  "reaches_try env =
     ((case cached env of Empty \<Rightarrow> connects env | Holds c \<Rightarrow> c = Some Open)
      \<and> map_of (faults env) Cursor = None)"

text \<open>The rows locked, in the order of the \<^verbatim>\<open>SELECT ... FOR UPDATE\<close> statements.\<close>

fun locks :: "statement list \<Rightarrow> int list" where
  "locks [] = []"
| "locks (SELECT_GOLD_FOR_UPDATE t cid # ss) = cid # locks ss"
| "locks (s # ss) = locks ss"

text \<open>The rows written, in the order of the \<^verbatim>\<open>UPDATE\<close> statements.\<close>

fun writes :: "statement list \<Rightarrow> int list" where
  "writes [] = []"
| "writes (UPDATE_GOLD_MINUS t amount cid # ss) = cid # writes ss"
| "writes (UPDATE_GOLD_PLUS t amount cid # ss) = cid # writes ss"
| "writes (s # ss) = writes ss"

text \<open>Every balance is non-negative.\<close>

definition non_negative :: "'o database \<Rightarrow> bool" where
  "non_negative d = (\<forall>r \<in> ran (characters d). 0 \<le> gold r)"

text \<open>The columns of a row other than its gold.\<close>

definition other_fields :: "character \<Rightarrow> int \<times> int" where
  "other_fields r = (race_id r, class_id r)"

section \<open>Concrete stores\<close>

text \<open>
  Entity A (id 1) with balance 100, entity B (id 2) with balance 50, and a bystander
  (id 3) with balance 7; no other table is populated.
\<close>

definition tavern :: "unit database" where
  "tavern =
     \<lparr>characters =
        [1 \<mapsto> \<lparr>race_id = 1, class_id = 1, gold = 100\<rparr>,
         2 \<mapsto> \<lparr>race_id = 1, class_id = 1, gold = 50\<rparr>,
         3 \<mapsto> \<lparr>race_id = 2, class_id = 4, gold = 7\<rparr>],
      other_tables = ()\<rparr>"

text \<open>A server that answers every call, in a process that has not connected yet.\<close>

definition healthy :: environment where
  "healthy = \<lparr>connects = True, faults = [], is_connected = True, cached = Empty\<rparr>"

text \<open>
  A connection handle that is no longer usable, the cached connection having been closed by
  an earlier call: \<^verbatim>\<open>conn.cursor()\<close> raises.
\<close>

definition stale_handle :: environment where
  "stale_handle =
     \<lparr>connects = True, faults = [], is_connected = False, cached = Holds (Some Closed)\<rparr>"

text \<open>
  A connection lost while the second row is being locked: the statement raises, and so does
  the \<^verbatim>\<open>conn.rollback()\<close> of the handler.
\<close>

definition lost_connection :: environment where
  "lost_connection =
     \<lparr>connects = True,
      faults = [(SelectTo, ''Lost connection to MySQL server during query''),
                (Rollback, ''MySQL Connection not available.'')],
      is_connected = False, cached = Empty\<rparr>"

section \<open>Basic facts\<close>

lemmas call_defs = and_then_def raise_def return_def db_def cursor_def start_transaction_def
  select_gold_for_update_def update_gold_minus_def update_gold_plus_def commit_def rollback_def
  cursor_close_def conn_close_def

lemma add_gold_zero: "add_gold cid 0 tab = tab"
  by (auto simp: add_gold_def split: option.splits)

lemma add_gold_back: "add_gold cid amount (add_gold cid (- amount) tab) = tab"
  by (auto simp: add_gold_def split: option.splits)

lemma add_gold_other: "cid' \<noteq> cid \<Longrightarrow> add_gold cid delta tab cid' = tab cid'"
  by (simp add: add_gold_def split: option.splits)

lemma add_gold_same:
  "add_gold cid delta tab cid = map_option (\<lambda>r. r\<lparr>gold := gold r + delta\<rparr>) (tab cid)"
  by (simp add: add_gold_def split: option.splits)

lemma add_gold_other_fields:
  "map_option other_fields (add_gold cid delta tab cid') = map_option other_fields (tab cid')"
  by (auto simp: add_gold_def other_fields_def split: option.splits)


lemma locks_append: "locks (xs @ ys) = locks xs @ locks ys"
  by (induction xs rule: locks.induct) simp_all

subsection \<open>The finally block\<close>

lemma snd_finally_close:
  "store (snd (finally_close env r)) = store (snd r)"
  "log (snd (finally_close env r)) = log (snd r)"
  by (simp_all add: finally_close_def call_defs split: prod.splits sum.splits option.splits)

lemma fst_finally_close_Inr: "fst (finally_close env r) = Inr v \<Longrightarrow> fst r = Inr v"
  by (simp add: finally_close_def call_defs split: prod.splits sum.splits option.splits if_splits)

lemma fst_finally_close_no_faults: "faults env = [] \<Longrightarrow> fst (finally_close env r) = fst r"
  by (simp add: finally_close_def call_defs split: prod.splits sum.splits option.splits)

subsection \<open>The except block\<close>

lemma store_except_rollback: "store (snd (except_rollback env r)) = store (snd r)"
  by (simp add: except_rollback_def call_defs split: prod.splits sum.splits option.splits)


lemma fst_except_rollback_Inr: "fst r = Inr v \<Longrightarrow> except_rollback env r = r"
  by (cases r) (simp add: except_rollback_def)

lemma except_rollback_no_faults:
  "faults env = [] \<Longrightarrow> fst r = Inl e \<Longrightarrow>
   except_rollback env r =
     (Inr (False, ''Gold transfer failed: '' @ str e),
      (snd r)\<lparr>txn := store (snd r), log := log (snd r) @ [ROLLBACK]\<rparr>)"
  by (cases r) (simp add: except_rollback_def call_defs)


lemma locks_except_rollback: "locks (log (snd (except_rollback env r))) = locks (log (snd r))"
  by (simp add: except_rollback_def call_defs locks_append
      split: prod.splits sum.splits option.splits)

subsection \<open>The try block\<close>

lemma store_try:
  "store (snd (transfer_gold_try env from_id to_id amount conn)) = store conn \<or>
   fst (transfer_gold_try env from_id to_id amount conn) = Inr (True, ''Gold transfer successful!'') \<and>
   gold_of (store conn) from_id \<noteq> None \<and> gold_of (store conn) to_id \<noteq> None \<and>
   amount \<le> the (gold_of (store conn) from_id) \<and>
   store (snd (transfer_gold_try env from_id to_id amount conn)) =
     (store conn)\<lparr>characters :=
        add_gold to_id amount (add_gold from_id (- amount) (characters (store conn)))\<rparr>"
  by (simp add: transfer_gold_try_def call_defs gold_of_def split: option.splits)

lemma store_allapp_try:
  "store (snd (transfer_gold_allapp_try env from_id to_id amount conn)) = store conn \<or>
   fst (transfer_gold_allapp_try env from_id to_id amount conn) = Inr (True, ''Gold transfer successful!'') \<and>
   gold_of (store conn) from_id \<noteq> None \<and> gold_of (store conn) to_id \<noteq> None \<and>
   amount \<le> the (gold_of (store conn) from_id) \<and>
   store (snd (transfer_gold_allapp_try env from_id to_id amount conn)) =
     (store conn)\<lparr>characters :=
        add_gold to_id amount (add_gold from_id (- amount) (characters (store conn)))\<rparr>"
  by (simp add: transfer_gold_allapp_try_def call_defs gold_of_def split: option.splits)

text \<open>The two copies of the try block differ in the wording of one message only.\<close>

lemma allapp_try_reword:
  "transfer_gold_allapp_try env from_id to_id amount conn =
     (case transfer_gold_try env from_id to_id amount conn of
        (Inl (ValueError msg), conn') \<Rightarrow>
          (Inl (ValueError (if msg = ''Insufficient gold to transfer.''
                            then ''Insufficient gold to transfer!'' else msg)), conn')
      | r \<Rightarrow> r)"
  by (simp add: transfer_gold_allapp_try_def transfer_gold_try_def call_defs
      TABLE_NAME_def TARGET_TABLE_NAME_def split: option.splits)


subsection \<open>The whole call\<close>

lemma handle_not_Closed: "(h \<noteq> Closed) = (h = Open)"
  by (cases h) simp_all

lemma entered:
  assumes "reaches_try env"
  shows "transfer_gold env from_id to_id amount d =
      finally_close env (except_rollback env (transfer_gold_try env from_id to_id amount (fresh d)))"
    and "transfer_gold_allapp env from_id to_id amount d =
      finally_close env (except_rollback env (transfer_gold_allapp_try env from_id to_id amount (fresh d)))"
  using assms
  by (auto simp: reaches_try_def transfer_gold_def transfer_gold_allapp_def get_connection_def
      cursor_def db_def return_def fresh_def split: cache.splits option.splits)

lemma not_entered:
  assumes "\<not> reaches_try env"
  shows "store (snd (transfer_gold env from_id to_id amount d)) = d"
    and "log (snd (transfer_gold env from_id to_id amount d)) = []"
    and "fst (transfer_gold env from_id to_id amount d) = Inr v \<Longrightarrow>
         v = (False, ''Database connection failed.'')"
    and "transfer_gold_allapp env from_id to_id amount d = transfer_gold env from_id to_id amount d"
  using assms
  by (auto simp: reaches_try_def transfer_gold_def transfer_gold_allapp_def get_connection_def
      cursor_def db_def return_def fresh_def handle_not_Closed
      split: cache.splits option.splits if_splits)

lemma no_faults_reaches_try: "no_faults env \<Longrightarrow> reaches_try env"
  by (simp add: no_faults_def reaches_try_def)

lemma after_transfer_gold:
  "after (transfer_gold env from_id to_id amount d) =
     (if reaches_try env
      then store (snd (transfer_gold_try env from_id to_id amount (fresh d))) else d)"
  by (simp add: after_def entered not_entered snd_finally_close store_except_rollback fresh_def)

lemma after_transfer_gold_allapp:
  "after (transfer_gold_allapp env from_id to_id amount d) =
     (if reaches_try env
      then store (snd (transfer_gold_allapp_try env from_id to_id amount (fresh d))) else d)"
  by (simp add: after_def entered not_entered snd_finally_close store_except_rollback fresh_def)

lemma returned_transfer_gold:
  assumes "fst (transfer_gold env from_id to_id amount d) = Inr v"
  shows "\<not> reaches_try env \<and> v = (False, ''Database connection failed.'') \<or>
         reaches_try env \<and>
         fst (except_rollback env (transfer_gold_try env from_id to_id amount (fresh d))) = Inr v"
proof (cases "reaches_try env")
  case True
  with assms show ?thesis
    by (auto simp: entered dest: fst_finally_close_Inr)
next
  case False
  with assms not_entered(3) [OF False, of from_id to_id amount d v] show ?thesis
    by simp
qed

lemma returned_transfer_gold_allapp:
  assumes "fst (transfer_gold_allapp env from_id to_id amount d) = Inr v"
  shows "\<not> reaches_try env \<and> v = (False, ''Database connection failed.'') \<or>
         reaches_try env \<and>
         fst (except_rollback env (transfer_gold_allapp_try env from_id to_id amount (fresh d))) = Inr v"
proof (cases "reaches_try env")
  case True
  with assms show ?thesis
    by (auto simp: entered dest: fst_finally_close_Inr)
next
  case False
  with assms not_entered(3) [OF False, of from_id to_id amount d v] show ?thesis
    by (simp add: not_entered(4))
qed

text \<open>
  Whatever the server does, a call leaves the database as it was or commits exactly the
  two relative updates, the latter only after it has read both rows and has found the
  source balance sufficient.
\<close>

lemma after_cases:
  "after (transfer_gold_of a env from_id to_id amount d) = d \<or>
   gold_of d from_id \<noteq> None \<and> gold_of d to_id \<noteq> None \<and>
   amount \<le> the (gold_of d from_id) \<and>
   after (transfer_gold_of a env from_id to_id amount d) =
     d\<lparr>characters := add_gold to_id amount (add_gold from_id (- amount) (characters d))\<rparr>"
proof (cases a)
  case Steamliteapp
  show ?thesis
    using store_try [of env from_id to_id amount "fresh d"]
    by (auto simp: Steamliteapp after_transfer_gold fresh_def)
next
  case Steamlite_allapp
  show ?thesis
    using store_allapp_try [of env from_id to_id amount "fresh d"]
    by (auto simp: Steamlite_allapp after_transfer_gold_allapp fresh_def)
qed

text \<open>
  The part of the failure contract that the code keeps: a call that returns
  \<^verbatim>\<open>ok=False\<close> has changed nothing.
\<close>

lemma returned_False_unchanged:
  assumes "ok (transfer_gold_of a env from_id to_id amount d) = Some False"
  shows "after (transfer_gold_of a env from_id to_id amount d) = d"
proof (cases a)
  case Steamliteapp
  from assms obtain msg where r: "fst (transfer_gold env from_id to_id amount d) = Inr (False, msg)"
    by (auto simp: ok_def Steamliteapp split: sum.splits)
  show ?thesis
    using store_try [of env from_id to_id amount "fresh d"] returned_transfer_gold [OF r]
    by (auto simp: Steamliteapp after_transfer_gold fresh_def fst_except_rollback_Inr)
next
  case Steamlite_allapp
  from assms obtain msg where r: "fst (transfer_gold_allapp env from_id to_id amount d) = Inr (False, msg)"
    by (auto simp: ok_def Steamlite_allapp split: sum.splits)
  show ?thesis
    using store_allapp_try [of env from_id to_id amount "fresh d"]
      returned_transfer_gold_allapp [OF r]
    by (auto simp: Steamlite_allapp after_transfer_gold_allapp fresh_def fst_except_rollback_Inr)
qed

lemma non_negative_tavern: "non_negative tavern"
  by (auto simp: non_negative_def tavern_def ran_def split: if_splits)

subsection \<open>More on the try block and the statements executed\<close>

lemma snd_allapp_try:
  "snd (transfer_gold_allapp_try env from_id to_id amount conn) =
   snd (transfer_gold_try env from_id to_id amount conn)"
  by (simp add: allapp_try_reword split: prod.splits sum.splits exn.splits)



lemma locks_try:
  "locks (log (snd (transfer_gold_try env from_id to_id amount (fresh d))))
     \<in> {[], [from_id], [from_id, to_id]}"
  by (simp add: transfer_gold_try_def call_defs fresh_def split: option.splits)


lemma executed_transfer_gold:
  "executed (transfer_gold env from_id to_id amount d) =
     (if reaches_try env
      then log (snd (except_rollback env (transfer_gold_try env from_id to_id amount (fresh d))))
      else [])"
  by (simp add: executed_def entered not_entered snd_finally_close)

lemma executed_transfer_gold_allapp:
  "executed (transfer_gold_allapp env from_id to_id amount d) =
     (if reaches_try env
      then log (snd (except_rollback env (transfer_gold_allapp_try env from_id to_id amount (fresh d))))
      else [])"
  by (simp add: executed_def entered not_entered snd_finally_close)


text \<open>What a call does on a store that raises no error, in the three cases of the try block.\<close>

lemma try_no_faults:
  assumes "faults env = []"
  shows "fst (transfer_gold_try env from_id to_id amount (fresh d)) =
     (case (gold_of d from_id, gold_of d to_id) of
        (Some from_gold, Some to_gold) \<Rightarrow>
          if from_gold < amount then Inl (ValueError ''Insufficient gold to transfer.'')
          else Inr (True, ''Gold transfer successful!'')
      | _ \<Rightarrow> Inl (ValueError ''One of the selected characters does not exist.''))"
  using assms
  by (simp add: transfer_gold_try_def call_defs fresh_def gold_of_def split: option.splits)

lemma fst_no_faults:
  assumes "no_faults env"
  shows "fst (transfer_gold_of a env from_id to_id amount d) =
     (case (gold_of d from_id, gold_of d to_id) of
        (Some from_gold, Some to_gold) \<Rightarrow>
          if from_gold < amount then Inr (False, ''Gold transfer failed: '' @ insufficient_gold a)
          else Inr (True, ''Gold transfer successful!'')
      | _ \<Rightarrow> Inr (False, ''Gold transfer failed: One of the selected characters does not exist.''))"
proof -
  from assms have f: "faults env = []" and rt: "reaches_try env"
    by (simp_all add: no_faults_def reaches_try_def)
  note t = try_no_faults [OF f, of from_id to_id amount d]
  show ?thesis
  proof (cases a)
    case Steamliteapp
    show ?thesis
      using t
      by (cases "transfer_gold_try env from_id to_id amount (fresh d)")
        (auto simp: Steamliteapp entered [OF rt] f fst_finally_close_no_faults
          except_rollback_no_faults fst_except_rollback_Inr
          split: option.splits if_splits)
  next
    case Steamlite_allapp
    show ?thesis
      using t
      by (cases "transfer_gold_try env from_id to_id amount (fresh d)")
        (auto simp: Steamlite_allapp entered [OF rt] f fst_finally_close_no_faults
          except_rollback_no_faults fst_except_rollback_Inr allapp_try_reword
          split: option.splits if_splits)
  qed
qed

lemma after_no_faults:
  assumes "no_faults env"
  shows "after (transfer_gold_of a env from_id to_id amount d) =
     (case (gold_of d from_id, gold_of d to_id) of
        (Some from_gold, Some to_gold) \<Rightarrow>
          if from_gold < amount then d
          else d\<lparr>characters := add_gold to_id amount (add_gold from_id (- amount) (characters d))\<rparr>
      | _ \<Rightarrow> d)"
proof -
  from assms have f: "faults env = []" and rt: "reaches_try env"
    by (simp_all add: no_faults_def reaches_try_def)
  have "store (snd (transfer_gold_try env from_id to_id amount (fresh d))) =
     (case (gold_of d from_id, gold_of d to_id) of
        (Some from_gold, Some to_gold) \<Rightarrow>
          if from_gold < amount then d
          else d\<lparr>characters := add_gold to_id amount (add_gold from_id (- amount) (characters d))\<rparr>
      | _ \<Rightarrow> d)"
    using f
    by (simp add: transfer_gold_try_def call_defs fresh_def gold_of_def split: option.splits)
  then show ?thesis
    by (cases a) (simp_all add: after_transfer_gold after_transfer_gold_allapp snd_allapp_try rt f)
qed

lemma locks_try_no_faults:
  assumes "faults env = []"
  shows "locks (log (snd (transfer_gold_try env from_id to_id amount (fresh d)))) = [from_id, to_id]"
  using assms
  by (simp add: transfer_gold_try_def call_defs fresh_def split: option.splits)

lemma locks_executed:
  "locks (executed (transfer_gold_of a env from_id to_id amount d)) =
     (if reaches_try env
      then locks (log (snd (transfer_gold_try env from_id to_id amount (fresh d)))) else [])"
  by (cases a)
    (simp_all add: executed_transfer_gold executed_transfer_gold_allapp locks_except_rollback
      snd_allapp_try)

lemma add_gold_non_negative:
  assumes "\<forall>r \<in> ran tab. 0 \<le> gold r"
    and "\<forall>r. tab cid = Some r \<longrightarrow> 0 \<le> gold r + delta"
  shows "\<forall>r \<in> ran (add_gold cid delta tab). 0 \<le> gold r"
proof
  fix r assume "r \<in> ran (add_gold cid delta tab)"
  then obtain k where k: "add_gold cid delta tab k = Some r"
    by (auto simp: ran_def)
  show "0 \<le> gold r"
  proof (cases "k = cid")
    case True
    with k assms(2) show ?thesis
      by (auto simp: add_gold_same)
  next
    case False
    with k have "tab k = Some r"
      by (simp add: add_gold_other)
    with assms(1) show ?thesis
      by (auto simp: ran_def)
  qed
qed

text \<open>The two copies raise the same exceptions, return the same flag and leave the same connection.\<close>

lemma copies_agree:
  "map_sum id fst (fst (transfer_gold_allapp env from_id to_id amount d)) =
   map_sum id fst (fst (transfer_gold env from_id to_id amount d))
   \<and> snd (transfer_gold_allapp env from_id to_id amount d) =
     snd (transfer_gold env from_id to_id amount d)"
proof (cases "reaches_try env")
  case False
  then show ?thesis
    by (simp add: not_entered(4))
next
  case True
  obtain r conn where body: "transfer_gold_try env from_id to_id amount (fresh d) = (r, conn)"
    by (cases "transfer_gold_try env from_id to_id amount (fresh d)")
  show ?thesis
  proof (cases r)
    case (Inl e)
    then show ?thesis
      using body
      by (cases e)
        (simp_all add: entered [OF True] allapp_try_reword except_rollback_def finally_close_def
          call_defs split: option.splits)
  next
    case (Inr v)
    then show ?thesis
      using body
      by (simp add: entered [OF True] allapp_try_reword)
  qed
qed

subsection \<open>The connection between two calls\<close>

lemma handle_try: "handle (snd (transfer_gold_try env from_id to_id amount conn)) = handle conn"
  by (simp add: transfer_gold_try_def call_defs split: option.splits)

lemma handle_except_rollback: "handle (snd (except_rollback env r)) = handle (snd r)"
  by (simp add: except_rollback_def call_defs split: prod.splits sum.splits option.splits)

lemma handle_finally_close:
  assumes "handle (snd r) = Open" and "is_connected env"
    and "map_of (faults env) CursorClose = None" and "map_of (faults env) ConnClose = None"
  shows "handle (snd (finally_close env r)) = Closed"
  using assms by (cases r) (simp add: finally_close_def call_defs)

text \<open>
  A call that reaches its try block on a connection that \<^verbatim>\<open>is_connected()\<close>, and
  whose two close calls do not raise, leaves the cached connection closed.
\<close>

lemma cached_later_Closed:
  assumes "reaches_try env" and "is_connected env"
    and "map_of (faults env) CursorClose = None" and "map_of (faults env) ConnClose = None"
  shows "cached (later env (transfer_gold_of a env from_id to_id amount d)) = Holds (Some Closed)"
proof -
  have "handle (snd (transfer_gold_of a env from_id to_id amount d)) = Closed"
    using assms
    by (cases a)
      (simp_all add: entered handle_finally_close handle_except_rollback handle_try snd_allapp_try
        fresh_def)
  with assms(1) show ?thesis
    by (auto simp: later_def cache_after_def reaches_try_def split: cache.splits option.splits)
qed

text \<open>On a closed connection every call raises from \<^verbatim>\<open>conn.cursor()\<close>, before its try block.\<close>

lemma on_closed_connection:
  assumes "cached env = Holds (Some Closed)"
  shows "transfer_gold_of a env from_id to_id amount d =
     (Inl (Error ''MySQL Connection not available.''), (fresh d)\<lparr>handle := Closed\<rparr>)"
  using assms
  by (cases a) (simp_all add: transfer_gold_def transfer_gold_allapp_def get_connection_def cursor_def)

text \<open>
  On a store that raises no error, a single call in which both entities exist but the
  balance read for the source is less than the amount returns the insufficient-gold failure
  and leaves the database unchanged.
\<close>

lemma insufficient_gold_single_call:
  assumes "no_faults env"
    and "gold_of d from_id = Some from_gold" and "gold_of d to_id = Some to_gold"
    and "from_gold < amount"
  shows "fst (transfer_gold_of a env from_id to_id amount d) =
           Inr (False, ''Gold transfer failed: '' @ insufficient_gold a)
    \<and> after (transfer_gold_of a env from_id to_id amount d) = d"
  using assms by (simp add: fst_no_faults after_no_faults)

section \<open>The specified properties of the transfer\<close>



text \<open>
  C7. The scenario does not run as specified. With A (id 1) at 100 and B (id 2) at 50 on a
  server that answers every call, \<^verbatim>\<open>transfer_gold(A, B, 30)\<close> returns
  \<^verbatim>\<open>ok=True\<close> and leaves A at 70 and B at 80; but its \<^verbatim>\<open>finally\<close> block has
  closed the connection that \<^verbatim>\<open>get_connection\<close> keeps cached, so the
  \<^verbatim>\<open>transfer_gold(A, B, 1000)\<close> that follows raises from \<^verbatim>\<open>conn.cursor()\<close>
  instead of returning \<^verbatim>\<open>ok=False\<close> with the insufficient-gold message. The balances
  stay at 70 and 80. For a single call on an open connection the property holds (lemma
  \<open>insufficient_gold_single_call\<close>).
\<close>

theorem second_transfer_raises:
  "fst (transfer_gold healthy 1 2 30 tavern) = Inr (True, ''Gold transfer successful!'')
   \<and> gold_of (after (transfer_gold healthy 1 2 30 tavern)) 1 = Some 70
   \<and> gold_of (after (transfer_gold healthy 1 2 30 tavern)) 2 = Some 80
   \<and> cached (later healthy (transfer_gold healthy 1 2 30 tavern)) = Holds (Some Closed)
   \<and> fst (transfer_gold (later healthy (transfer_gold healthy 1 2 30 tavern)) 1 2 1000
          (after (transfer_gold healthy 1 2 30 tavern)))
       = Inl (Error ''MySQL Connection not available.'')
   \<and> gold_of (after (transfer_gold (later healthy (transfer_gold healthy 1 2 30 tavern)) 1 2 1000
          (after (transfer_gold healthy 1 2 30 tavern)))) 1 = Some 70
   \<and> gold_of (after (transfer_gold (later healthy (transfer_gold healthy 1 2 30 tavern)) 1 2 1000
          (after (transfer_gold healthy 1 2 30 tavern)))) 2 = Some 80
   \<and> fst (transfer_gold_allapp (later healthy (transfer_gold_allapp healthy 1 2 30 tavern)) 1 2 1000
          (after (transfer_gold_allapp healthy 1 2 30 tavern)))
       = Inl (Error ''MySQL Connection not available.'')"
proof -
  have h: "no_faults healthy"
    by (simp add: no_faults_def healthy_def)
  have first: "fst (transfer_gold_of a healthy 1 2 30 tavern) = Inr (True, ''Gold transfer successful!'')"
    for a
    by (simp add: fst_no_faults [OF h] gold_of_def tavern_def)
  have a70: "gold_of (after (transfer_gold_of a healthy 1 2 30 tavern)) 1 = Some 70" for a
    by (simp add: after_no_faults [OF h] gold_of_def tavern_def add_gold_def)
  have b80: "gold_of (after (transfer_gold_of a healthy 1 2 30 tavern)) 2 = Some 80" for a
    by (simp add: after_no_faults [OF h] gold_of_def tavern_def add_gold_def)
  have closed: "cached (later healthy (transfer_gold_of a healthy 1 2 30 tavern)) = Holds (Some Closed)"
    for a
    by (rule cached_later_Closed) (simp_all add: healthy_def reaches_try_def)
  have second: "transfer_gold_of a (later healthy (transfer_gold_of a healthy 1 2 30 tavern)) 1 2 1000
        (after (transfer_gold_of a healthy 1 2 30 tavern))
      = (Inl (Error ''MySQL Connection not available.''),
         (fresh (after (transfer_gold_of a healthy 1 2 30 tavern)))\<lparr>handle := Closed\<rparr>)" for a
    by (rule on_closed_connection [OF closed])
  show ?thesis
    using first [of Steamliteapp] a70 [of Steamliteapp] b80 [of Steamliteapp]
      closed [of Steamliteapp] second [of Steamliteapp] second [of Steamlite_allapp]
    by (simp add: after_def fresh_def gold_of_def)
qed



text \<open>
  C9. Whether a call succeeds, fails or raises, it changes nothing but the gold of the rows
  \<open>from_id\<close> and \<open>to_id\<close> of the Characters table: the other tables are the same, the
  table has the same keys, every other row is the same, and every row keeps its other
  columns.
\<close>

theorem only_two_gold_fields_change:
  "other_tables (after (transfer_gold_of a env from_id to_id amount d)) = other_tables d
   \<and> dom (characters (after (transfer_gold_of a env from_id to_id amount d))) = dom (characters d)
   \<and> (\<forall>cid. cid \<noteq> from_id \<and> cid \<noteq> to_id \<longrightarrow>
         characters (after (transfer_gold_of a env from_id to_id amount d)) cid = characters d cid)
   \<and> (\<forall>cid. map_option other_fields (characters (after (transfer_gold_of a env from_id to_id amount d)) cid)
           = map_option other_fields (characters d cid))"
proof -
  have rows: "map_option other_fields (characters (after (transfer_gold_of a env from_id to_id amount d)) cid)
      = map_option other_fields (characters d cid)" for cid
    using after_cases [of a env from_id to_id amount d]
    by (auto simp: add_gold_other_fields)
  have keys: "dom (characters (after (transfer_gold_of a env from_id to_id amount d))) = dom (characters d)"
  proof -
    have "(characters (after (transfer_gold_of a env from_id to_id amount d)) cid = None)
        = (characters d cid = None)" for cid
      using rows [of cid] by (metis option.map_disc_iff)
    then show ?thesis
      by (auto simp: dom_def)
  qed
  have others: "characters (after (transfer_gold_of a env from_id to_id amount d)) cid = characters d cid"
    if "cid \<noteq> from_id" "cid \<noteq> to_id" for cid
    using after_cases [of a env from_id to_id amount d] that
    by (auto simp: add_gold_other)
  have tables: "other_tables (after (transfer_gold_of a env from_id to_id amount d)) = other_tables d"
    using after_cases [of a env from_id to_id amount d] by auto
  show ?thesis
    using rows keys others tables by simp
qed

theorem only_two_gold_fields_change_witness:
  "other_tables (after (transfer_gold_of Steamliteapp healthy 1 2 30 tavern)) = ()
   \<and> (3::int) \<noteq> 1 \<and> (3::int) \<noteq> 2
   \<and> characters (after (transfer_gold_of Steamliteapp healthy 1 2 30 tavern)) 3 =
       Some \<lparr>race_id = 2, class_id = 4, gold = 7\<rparr>
   \<and> map_option other_fields (characters (after (transfer_gold_of Steamliteapp healthy 1 2 30 tavern)) 1)
       = Some (1, 1)"
  using only_two_gold_fields_change [of Steamliteapp healthy 1 2 30 tavern]
  by (simp add: tavern_def other_fields_def)

text \<open>
  C10. For every input, every database and every behaviour of the store, the
  \<^verbatim>\<open>transfer_gold\<close> of \<^verbatim>\<open>Steamliteapp.py\<close> and the one of
  \<^verbatim>\<open>Steamlite_allapp.py\<close> return the same success flag (or let the same exception
  through), leave the same database and execute the same statements.
\<close>

theorem transfer_gold_copies_equivalent:
  "ok (transfer_gold_allapp env from_id to_id amount d) = ok (transfer_gold env from_id to_id amount d)
   \<and> after (transfer_gold_allapp env from_id to_id amount d) = after (transfer_gold env from_id to_id amount d)
   \<and> executed (transfer_gold_allapp env from_id to_id amount d) =
       executed (transfer_gold env from_id to_id amount d)
   \<and> (fst (transfer_gold_allapp env from_id to_id amount d) = Inl e) =
       (fst (transfer_gold env from_id to_id amount d) = Inl e)"
proof -
  note eq = copies_agree [of env from_id to_id amount d]
  have flag: "ok r = (case map_sum id fst (fst r) of Inl e \<Rightarrow> None | Inr success \<Rightarrow> Some success)"
    for r :: "(exn + bool \<times> string) \<times> 'a connection"
    by (simp add: ok_def split: sum.splits prod.splits)
  have exc: "(fst r = Inl e) = (map_sum id fst (fst r) = Inl e)"
    for r :: "(exn + bool \<times> string) \<times> 'a connection"
    by (cases "fst r") simp_all
  show ?thesis
    using eq by (simp add: flag exc after_def executed_def)
qed

text \<open>
  C3 (amended). The rows are locked in the order of the arguments: the locks a call takes
  are a prefix of \<open>from_id\<close>, \<open>to_id\<close>, and on a store that raises no error they are
  exactly \<open>from_id\<close> first and \<open>to_id\<close> second, whichever identifier is the lower.
\<close>

theorem locks_in_argument_order:
  "locks (executed (transfer_gold_of a env from_id to_id amount d)) \<in> {[], [from_id], [from_id, to_id]}
   \<and> (no_faults env \<longrightarrow>
        locks (executed (transfer_gold_of a env from_id to_id amount d)) = [from_id, to_id])"
proof -
  have "locks (executed (transfer_gold_of a env from_id to_id amount d)) = [from_id, to_id]"
    if "no_faults env"
    using that no_faults_reaches_try [OF that]
    by (simp add: locks_executed locks_try_no_faults no_faults_def)
  then show ?thesis
    using locks_try [of env from_id to_id amount d]
    by (auto simp: locks_executed)
qed

theorem locks_in_argument_order_witness:
  "no_faults healthy \<and> locks (executed (transfer_gold_of Steamliteapp healthy 2 1 30 tavern)) = [2, 1]"
  using locks_in_argument_order [of Steamliteapp healthy 2 1 30 tavern]
  by (simp add: no_faults_def healthy_def)

text \<open>
  C3 as stated fails: transferring from the entity 2 to the entity 1 locks the row 2 before
  the row 1, in both copies.
\<close>

theorem higher_id_locked_first:
  "locks (executed (transfer_gold healthy 2 1 30 tavern)) = [2, 1]
   \<and> locks (executed (transfer_gold_allapp healthy 2 1 30 tavern)) = [2, 1]
   \<and> \<not> sorted (locks (executed (transfer_gold healthy 2 1 30 tavern)))"
proof -
  have 1: "locks (executed (transfer_gold healthy 2 1 30 tavern)) = [2, 1]"
    by (simp add: executed_transfer_gold locks_except_rollback locks_try_no_faults healthy_def reaches_try_def)
  have 2: "locks (executed (transfer_gold_allapp healthy 2 1 30 tavern)) = [2, 1]"
    by (simp add: executed_transfer_gold_allapp locks_except_rollback snd_allapp_try
        locks_try_no_faults healthy_def reaches_try_def)
  show ?thesis
    by (simp add: 1 2)
qed

text \<open>
  C4 (amended). A call with \<open>from_id\<close> equal to \<open>to_id\<close> never changes a balance:
  the database after the call is the database before it, whatever the call returns. The
  same-character error is the caller's: the button handler reports it without calling
  \<^verbatim>\<open>transfer_gold\<close>, so that no statement is executed.
\<close>

theorem same_entity_changes_nothing:
  assumes "from_id = to_id"
  shows "after (transfer_gold_of a env from_id to_id amount d) = d
    \<and> transfer_gold_button a env from_id to_id amount d =
        (Inr (st_error ''Cannot transfer gold to the same character!''), fresh d)"
  using assms after_cases [of a env from_id to_id amount d]
  by (auto simp: add_gold_back transfer_gold_button_def)

theorem same_entity_changes_nothing_witness:
  "(1::int) = 1
   \<and> after (transfer_gold_of Steamliteapp healthy 1 1 30 tavern) = tavern
   \<and> executed (transfer_gold_button Steamliteapp healthy 1 1 30 tavern) = []"
  using same_entity_changes_nothing [of 1 1 Steamliteapp healthy 30 tavern]
  by (simp add: executed_def fresh_def)

text \<open>
  C4 as stated fails: \<^verbatim>\<open>transfer_gold(1, 1, 30)\<close> returns \<^verbatim>\<open>ok=True\<close> after
  locking and updating the row, in both copies.
\<close>

theorem same_entity_call_succeeds:
  "fst (transfer_gold healthy 1 1 30 tavern) = Inr (True, ''Gold transfer successful!'')
   \<and> fst (transfer_gold_allapp healthy 1 1 30 tavern) = Inr (True, ''Gold transfer successful!'')
   \<and> locks (executed (transfer_gold healthy 1 1 30 tavern)) = [1, 1]
   \<and> writes (executed (transfer_gold healthy 1 1 30 tavern)) = [1, 1]"
proof -
  have h: "no_faults healthy"
    by (simp add: no_faults_def healthy_def)
  have 1: "fst (transfer_gold healthy 1 1 30 tavern) = Inr (True, ''Gold transfer successful!'')"
    using fst_no_faults [OF h, of Steamliteapp 1 1 30 tavern]
    by (simp add: gold_of_def tavern_def)
  have 2: "fst (transfer_gold_allapp healthy 1 1 30 tavern) = Inr (True, ''Gold transfer successful!'')"
    using fst_no_faults [OF h, of Steamlite_allapp 1 1 30 tavern]
    by (simp add: gold_of_def tavern_def)
  have 3: "executed (transfer_gold healthy 1 1 30 tavern) =
      [START_TRANSACTION, SELECT_GOLD_FOR_UPDATE TARGET_TABLE_NAME 1,
       SELECT_GOLD_FOR_UPDATE TARGET_TABLE_NAME 1, UPDATE_GOLD_MINUS TARGET_TABLE_NAME 30 1,
       UPDATE_GOLD_PLUS TARGET_TABLE_NAME 30 1, COMMIT]"
    by (simp add: executed_transfer_gold healthy_def reaches_try_def tavern_def transfer_gold_try_def
        except_rollback_def call_defs fresh_def add_gold_def)
  show ?thesis
    by (simp add: 1 2 3)
qed

text \<open>
  C5 (amended). \<^verbatim>\<open>transfer_gold\<close> does not check the amount; its caller keeps the
  amount positive. For every call with an amount of zero or less: if the amount is zero,
  or if the call returns \<^verbatim>\<open>ok=False\<close>, no balance changes; and for an amount of zero
  and two different characters the button handler gives its warning without calling
  \<^verbatim>\<open>transfer_gold\<close>.
\<close>

theorem non_positive_amount:
  assumes "amount \<le> 0"
  shows "(amount = 0 \<or> ok (transfer_gold_of a env from_id to_id amount d) = Some False \<longrightarrow>
            after (transfer_gold_of a env from_id to_id amount d) = d)
    \<and> (amount = 0 \<and> from_id \<noteq> to_id \<longrightarrow>
         transfer_gold_button a env from_id to_id amount d =
           (Inr (st_warning ''Please select both characters and a valid amount.''), fresh d))"
proof -
  have zero: "after (transfer_gold_of a env from_id to_id 0 d) = d"
    using after_cases [of a env from_id to_id 0 d]
    by (auto simp: add_gold_zero)
  show ?thesis
    using zero returned_False_unchanged [of a env from_id to_id amount d]
    by (auto simp: transfer_gold_button_def)
qed

theorem non_positive_amount_witness:
  "(0::int) \<le> 0 \<and> (1::int) \<noteq> 2
   \<and> after (transfer_gold_of Steamliteapp healthy 1 2 0 tavern) = tavern
   \<and> transfer_gold_button Steamliteapp healthy 1 2 0 tavern =
       (Inr (st_warning ''Please select both characters and a valid amount.''), fresh tavern)"
  using non_positive_amount [of 0 Steamliteapp healthy 1 2 tavern]
  by simp

text \<open>
  C5 as stated fails: with the amount -5 the call returns \<^verbatim>\<open>ok=True\<close> and gold flows
  from the destination to the source; with the amount 0 the call returns \<^verbatim>\<open>ok=True\<close>
  after locking both rows.
\<close>

theorem non_positive_amount_accepted:
  "fst (transfer_gold healthy 1 2 (- 5) tavern) = Inr (True, ''Gold transfer successful!'')
   \<and> gold_of (after (transfer_gold healthy 1 2 (- 5) tavern)) 1 = Some 105
   \<and> gold_of (after (transfer_gold healthy 1 2 (- 5) tavern)) 2 = Some 45
   \<and> fst (transfer_gold healthy 1 2 0 tavern) = Inr (True, ''Gold transfer successful!'')
   \<and> locks (executed (transfer_gold healthy 1 2 0 tavern)) = [1, 2]
   \<and> fst (transfer_gold_allapp healthy 1 2 (- 5) tavern) = Inr (True, ''Gold transfer successful!'')"
proof -
  have h: "no_faults healthy"
    by (simp add: no_faults_def healthy_def)
  have 1: "fst (transfer_gold healthy 1 2 (- 5) tavern) = Inr (True, ''Gold transfer successful!'')"
    using fst_no_faults [OF h, of Steamliteapp 1 2 "- 5" tavern]
    by (simp add: gold_of_def tavern_def)
  have 2: "gold_of (after (transfer_gold healthy 1 2 (- 5) tavern)) 1 = Some 105"
    using after_no_faults [OF h, of Steamliteapp 1 2 "- 5" tavern]
    by (simp add: gold_of_def tavern_def add_gold_def)
  have 3: "gold_of (after (transfer_gold healthy 1 2 (- 5) tavern)) 2 = Some 45"
    using after_no_faults [OF h, of Steamliteapp 1 2 "- 5" tavern]
    by (simp add: gold_of_def tavern_def add_gold_def)
  have 4: "fst (transfer_gold healthy 1 2 0 tavern) = Inr (True, ''Gold transfer successful!'')"
    using fst_no_faults [OF h, of Steamliteapp 1 2 0 tavern]
    by (simp add: gold_of_def tavern_def)
  have 5: "locks (executed (transfer_gold healthy 1 2 0 tavern)) = [1, 2]"
    by (simp add: executed_transfer_gold locks_except_rollback locks_try_no_faults healthy_def reaches_try_def)
  have 6: "fst (transfer_gold_allapp healthy 1 2 (- 5) tavern) = Inr (True, ''Gold transfer successful!'')"
    using fst_no_faults [OF h, of Steamlite_allapp 1 2 "- 5" tavern]
    by (simp add: gold_of_def tavern_def)
  show ?thesis
    by (simp add: 1 2 3 4 5 6)
qed

text \<open>
  C6 (amended). For every call with a non-negative amount (the caller's number input admits
  amounts from 1 on), and every database in which all balances are non-negative, all
  balances are non-negative after the call, whether it succeeds, fails or raises.
\<close>

theorem non_negative_preserved:
  assumes "0 \<le> amount" and "non_negative d"
  shows "non_negative (after (transfer_gold_of a env from_id to_id amount d))"
proof -
  from after_cases [of a env from_id to_id amount d]
  consider (same) "after (transfer_gold_of a env from_id to_id amount d) = d"
    | (moved) "gold_of d from_id \<noteq> None" "amount \<le> the (gold_of d from_id)"
        "after (transfer_gold_of a env from_id to_id amount d) =
          d\<lparr>characters := add_gold to_id amount (add_gold from_id (- amount) (characters d))\<rparr>"
    by blast
  then show ?thesis
  proof cases
    case same
    with assms(2) show ?thesis by simp
  next
    case moved
    from assms(2) have tab: "\<forall>r \<in> ran (characters d). 0 \<le> gold r"
      by (simp add: non_negative_def)
    from moved(1,2) have "\<forall>r. characters d from_id = Some r \<longrightarrow> 0 \<le> gold r + (- amount)"
      by (auto simp: gold_of_def)
    with tab have minus: "\<forall>r \<in> ran (add_gold from_id (- amount) (characters d)). 0 \<le> gold r"
      by (rule add_gold_non_negative)
    from minus assms(1)
    have "\<forall>r. add_gold from_id (- amount) (characters d) to_id = Some r \<longrightarrow> 0 \<le> gold r + amount"
      by (auto simp: ran_def)
    with minus
    have "\<forall>r \<in> ran (add_gold to_id amount (add_gold from_id (- amount) (characters d))). 0 \<le> gold r"
      by (rule add_gold_non_negative)
    with moved(3) show ?thesis
      by (simp add: non_negative_def)
  qed
qed

theorem non_negative_preserved_witness:
  "(0::int) \<le> 30 \<and> non_negative tavern
   \<and> non_negative (after (transfer_gold_of Steamliteapp healthy 1 2 30 tavern))"
proof -
  have h: "(0::int) \<le> 30" "non_negative tavern"
    by (simp_all add: non_negative_tavern)
  show ?thesis
    using h non_negative_preserved [OF h, of Steamliteapp healthy 1 2] by simp
qed

text \<open>
  C6 as stated fails: a negative amount passes the balance check and is added to the
  destination, whose balance of 50 becomes -10.
\<close>

theorem negative_amount_breaks_non_negative:
  "non_negative tavern
   \<and> fst (transfer_gold healthy 1 2 (- 60) tavern) = Inr (True, ''Gold transfer successful!'')
   \<and> gold_of (after (transfer_gold healthy 1 2 (- 60) tavern)) 2 = Some (- 10)
   \<and> \<not> non_negative (after (transfer_gold healthy 1 2 (- 60) tavern))
   \<and> \<not> non_negative (after (transfer_gold_allapp healthy 1 2 (- 60) tavern))"
proof -
  have h: "no_faults healthy"
    by (simp add: no_faults_def healthy_def)
  have 1: "fst (transfer_gold healthy 1 2 (- 60) tavern) = Inr (True, ''Gold transfer successful!'')"
    using fst_no_faults [OF h, of Steamliteapp 1 2 "- 60" tavern]
    by (simp add: gold_of_def tavern_def)
  have 2: "gold_of (after (transfer_gold_of a healthy 1 2 (- 60) tavern)) 2 = Some (- 10)" for a
    using after_no_faults [OF h, of a 1 2 "- 60" "tavern"]
    by (simp add: gold_of_def tavern_def add_gold_def)
  have 3: "\<not> non_negative (after (transfer_gold_of a healthy 1 2 (- 60) tavern))" for a
  proof
    assume n: "non_negative (after (transfer_gold_of a healthy 1 2 (- 60) tavern))"
    from 2 [of a] obtain r
      where r: "characters (after (transfer_gold_of a healthy 1 2 (- 60) tavern)) 2 = Some r"
        and g: "gold r = - 10"
      by (auto simp: gold_of_def)
    from r have "r \<in> ran (characters (after (transfer_gold_of a healthy 1 2 (- 60) tavern)))"
      by (rule ranI)
    with n have "0 \<le> gold r"
      by (simp add: non_negative_def)
    with g show False by simp
  qed
  show ?thesis
    using 1 2 [of Steamliteapp] 3 [of Steamliteapp] 3 [of Steamlite_allapp]
    by (simp add: non_negative_tavern)
qed

text \<open>
  C2. The failure contract holds in part: a call that returns \<^verbatim>\<open>ok=False\<close> has changed nothing
  (lemma \<open>returned_False_unchanged\<close>). But not every store error becomes a result:
  \<^verbatim>\<open>conn.cursor()\<close> is called before the \<^verbatim>\<open>try\<close>, and \<^verbatim>\<open>conn.rollback()\<close>
  inside the handler, so an error raised by either reaches the caller. Here the call is
  evaluated on a connection handle that is no longer usable, and on a connection lost while
  the second row is locked.
\<close>

theorem store_error_reaches_caller:
  "fst (transfer_gold stale_handle 1 2 30 tavern) = Inl (Error ''MySQL Connection not available.'')
   \<and> fst (transfer_gold_allapp stale_handle 1 2 30 tavern) = Inl (Error ''MySQL Connection not available.'')
   \<and> fst (transfer_gold lost_connection 1 2 30 tavern) = Inl (Error ''MySQL Connection not available.'')
   \<and> fst (transfer_gold_allapp lost_connection 1 2 30 tavern) = Inl (Error ''MySQL Connection not available.'')
   \<and> ok (transfer_gold stale_handle 1 2 30 tavern) = None
   \<and> ok (transfer_gold lost_connection 1 2 30 tavern) = None"
proof -
  have 1: "fst (transfer_gold stale_handle 1 2 30 tavern) = Inl (Error ''MySQL Connection not available.'')"
    by (simp add: transfer_gold_def get_connection_def cursor_def db_def stale_handle_def)
  have 2: "fst (transfer_gold_allapp stale_handle 1 2 30 tavern) = Inl (Error ''MySQL Connection not available.'')"
    by (simp add: transfer_gold_allapp_def get_connection_def cursor_def db_def stale_handle_def)
  have 3: "fst (transfer_gold lost_connection 1 2 30 tavern) = Inl (Error ''MySQL Connection not available.'')"
    by (simp add: transfer_gold_def transfer_gold_try_def except_rollback_def finally_close_def
        get_connection_def call_defs lost_connection_def fresh_def tavern_def)
  have 4: "fst (transfer_gold_allapp lost_connection 1 2 30 tavern) = Inl (Error ''MySQL Connection not available.'')"
    by (simp add: transfer_gold_allapp_def transfer_gold_allapp_try_def except_rollback_def
        finally_close_def get_connection_def call_defs lost_connection_def fresh_def tavern_def)
  show ?thesis
    by (simp add: 1 2 3 4 ok_def)
qed

end
